theory Spec2Isabelle
  imports Complex_Main
begin

section \<open>The trim-and-compress pipeline of OTrimmer\<close>

text \<open>
  The class \<open>VideoTrimmer\<close> of \<open>src/src/otrimmer.py\<close> (the methods it shares with
  \<open>src/trimmer.py\<close> have the same text there) is embedded as functions on an explicit
  object state and an explicit outside world.

  Numbers: Python's \<open>int\<close> is \<open>int\<close>. A Python \<open>float\<close> is modelled by the rational
  number it stands for, and \<open>/\<close>, \<open>*\<close> on floats by the exact operations: the rounding
  of binary64 arithmetic to 53 significant bits, and its overflow, are not part of the
  model. The literal \<open>0.95\<close> is the rational 95/100.
\<close>

subsection \<open>Python values\<close>

datatype exn = TypeError | ValueError | OSError | FileNotFoundError | OtherError string

text \<open>\<open>int(x)\<close> on a float truncates towards zero.\<close>

definition py_int :: "rat \<Rightarrow> int" where
  "py_int x = (if 0 \<le> x then \<lfloor>x\<rfloor> else \<lceil>x\<rceil>)"

text \<open>The decimal text of a natural number, as \<open>f"{os.getpid()}"\<close> prints it.\<close>

definition digit :: "nat \<Rightarrow> char" where
  "digit d = ''0123456789'' ! d"

fun dec :: "nat \<Rightarrow> string" where
  "dec n = (if n < 10 then [digit n] else dec (n div 10) @ [digit (n mod 10)])"

declare dec.simps [simp del]

text \<open>\<open>os.path.join\<close> of \<open>posixpath\<close> on two components.\<close>

definition path_join :: "string \<Rightarrow> string \<Rightarrow> string" where
  "path_join a b =
     (if b \<noteq> [] \<and> hd b = CHR ''/'' then b
      else if a = [] \<or> last a = CHR ''/'' then a @ b
      else a @ ''/'' @ b)"

subsection \<open>Signals and messages\<close>

text \<open>
  A message is the f-string of the source, piece by piece: the literal text, and for
  each hole the value that is formatted into it.
\<close>

datatype piece =
    Txt string
  | Mb rat
  | Whole int
  | Exc exn

type_synonym message = "piece list"

datatype signal =
    StartTimeChanged
  | EndTimeChanged
  | DurationChanged
  | TrimCompleteChanged message
  | ErrorOccurred message
  | CompressionStarted
  | CompressionFinished

text \<open>The arrow of the progress messages, in UTF-8.\<close>

definition arrow :: string where
  "arrow = [char_of (226::nat), char_of (134::nat), char_of (146::nat)]"

subsection \<open>The outside world\<close>

text \<open>
  A command line is the argument list given to \<open>subprocess.run\<close>; a float or an integer
  that the source formats into an argument is kept as the number.
\<close>

datatype arg = Str string | Flt rat | Num int

type_synonym cmd = "arg list"

type_synonym fs = "string \<rightharpoonup> nat"

text \<open>
  What a run of the encoder gives back: an exception of \<open>subprocess.run\<close>, or the exit
  status, the text on standard error, and the state of the output path when the process
  has ended (its size in bytes if the file is there).
\<close>

datatype ffmpeg_reply =
    FfmpegRaises exn
  | FfmpegExits int string "nat option"

text \<open>
  What a run of the prober gives back. The standard output is kept as what
  \<open>json.loads\<close> and the two \<open>get\<close>s make of it: \<open>Malformed\<close> when \<open>json.loads\<close> (or a
  \<open>get\<close>) raises, otherwise the entry \<open>duration\<close> of the object \<open>format\<close> if it has one,
  as what \<open>float\<close> makes of that entry (the number, or the exception it raises).
\<close>

datatype json_doc =
    Malformed
  | Document "(exn + rat) option"

datatype ffprobe_reply =
    FfprobeRaises exn
  | FfprobeExits int json_doc

text \<open>
  The save dialog: an exception, or the exit status and the standard output after
  \<open>strip()\<close>.
\<close>

datatype kdialog_reply =
    KdialogRaises exn
  | KdialogExits int string

record env =
  gettempdir :: string
  getpid :: nat
  ffmpeg :: "cmd \<Rightarrow> fs \<Rightarrow> ffmpeg_reply"
  ffprobe :: "cmd \<Rightarrow> fs \<Rightarrow> ffprobe_reply"
  kdialog :: "string \<Rightarrow> kdialog_reply"
  copy2 :: "string \<Rightarrow> string \<Rightarrow> exn option"

datatype callback = CheckAndCompress | CopyFilePathToClipboard string

record world =
  files :: fs
  emitted :: "signal list"
  invoked :: "cmd list"
  timers :: "callback list"

definition emit :: "signal \<Rightarrow> world \<Rightarrow> world" where
  "emit sg w = w\<lparr>emitted := emitted w @ [sg]\<rparr>"

definition singleShot :: "callback \<Rightarrow> world \<Rightarrow> world" where
  "singleShot cb w = w\<lparr>timers := timers w @ [cb]\<rparr>"

definition run_logged :: "cmd \<Rightarrow> world \<Rightarrow> world" where
  "run_logged c w = w\<lparr>invoked := invoked w @ [c]\<rparr>"

subsection \<open>The object\<close>

record trimmer =
  start_time :: int
  end_time :: int
  duration :: int
  video_path :: string
  trim_completed :: bool
  temp_output :: "string option"
  compressed_output :: "string option"
  max_size_mb :: int

definition init :: trimmer where
  "init = \<lparr>start_time = 0, end_time = 0, duration = 0, video_path = [],
            trim_completed = False, temp_output = None, compressed_output = None,
            max_size_mb = 50\<rparr>"

subsection \<open>The setters of \<open>startTime\<close> and \<open>endTime\<close>\<close>

definition set_startTime :: "int \<Rightarrow> trimmer \<times> world \<Rightarrow> trimmer \<times> world" where
  "set_startTime v sw =
     (case sw of (s, w) \<Rightarrow>
        if start_time s \<noteq> v
        then (s\<lparr>start_time := v, trim_completed := False\<rparr>, emit StartTimeChanged w)
        else (s, w))"

definition set_endTime :: "int \<Rightarrow> trimmer \<times> world \<Rightarrow> trimmer \<times> world" where
  "set_endTime v sw =
     (case sw of (s, w) \<Rightarrow>
        if end_time s \<noteq> v
        then (s\<lparr>end_time := v, trim_completed := False\<rparr>, emit EndTimeChanged w)
        else (s, w))"

subsection \<open>\<open>createTrim\<close>\<close>

definition trim_output :: "env \<Rightarrow> string" where
  "trim_output e = path_join (gettempdir e) (''trimmed_video_'' @ dec (getpid e) @ ''.mp4'')"

definition start_seconds :: "trimmer \<Rightarrow> rat" where
  "start_seconds s = of_int (start_time s) / 1000"

definition duration_seconds :: "trimmer \<Rightarrow> rat" where
  "duration_seconds s = of_int (end_time s - start_time s) / 1000"

definition trim_cmd :: "env \<Rightarrow> trimmer \<Rightarrow> cmd" where
  "trim_cmd e s =
     [Str ''ffmpeg'',
      Str ''-y'',
      Str ''-i'', Str (video_path s),
      Str ''-ss'', Flt (start_seconds s),
      Str ''-t'', Flt (duration_seconds s),
      Str ''-c'', Str ''copy'',
      Str (trim_output e)]"

definition createTrim :: "env \<Rightarrow> trimmer \<times> world \<Rightarrow> bool \<times> trimmer \<times> world" where
  "createTrim e sw =
     (case sw of (s, w) \<Rightarrow>
        if video_path s = [] then
          (False, s, emit (ErrorOccurred [Txt ''No video loaded'']) w)
        else
          let s1 = s\<lparr>temp_output := Some (trim_output e)\<rparr>;
              c = trim_cmd e s;
              w1 = run_logged c w
          in case ffmpeg e c (files w1) of
               FfmpegRaises x \<Rightarrow>
                 (False, s1, emit (ErrorOccurred [Txt ''Error during trimming: '', Exc x]) w1)
             | FfmpegExits returncode stderr out_after \<Rightarrow>
                 let w2 = w1\<lparr>files := (files w1)(trim_output e := out_after)\<rparr> in
                 if returncode = 0 then
                   (True, s1\<lparr>trim_completed := True\<rparr>,
                    emit (TrimCompleteChanged [Txt ''Trim created and ready to save or copy''])
                      (singleShot CheckAndCompress w2))
                 else
                   (False, s1, emit (ErrorOccurred [Txt ''Error trimming video: '', Txt stderr]) w2))"

subsection \<open>\<open>_get_video_info\<close>\<close>

definition probe_cmd :: "string \<Rightarrow> cmd" where
  "probe_cmd p =
     [Str ''ffprobe'',
      Str ''-v'', Str ''error'',
      Str ''-select_streams'', Str ''v:0'',
      Str ''-show_entries'', Str ''format=duration'',
      Str ''-of'', Str ''json'',
      Str p]"

text \<open>
  The result is the dictionary of the source: empty, or with the one key \<open>duration\<close>,
  whose value is the entry of the document or the default \<open>0\<close>.
\<close>

definition get_video_info :: "env \<Rightarrow> string \<Rightarrow> world \<Rightarrow> (string \<rightharpoonup> exn + rat) \<times> world" where
  "get_video_info e p w =
     (let c = probe_cmd p; w1 = run_logged c w
      in case ffprobe e c (files w1) of
           FfprobeRaises x \<Rightarrow> (Map.empty, w1)
         | FfprobeExits returncode doc \<Rightarrow>
             if returncode = 0 then
               (case doc of
                  Malformed \<Rightarrow> (Map.empty, w1)
                | Document None \<Rightarrow> ([''duration'' \<mapsto> Inr 0], w1)
                | Document (Some v) \<Rightarrow> ([''duration'' \<mapsto> v], w1))
             else (Map.empty, w1))"

text \<open>\<open>float(video_info.get('duration', 0))\<close>\<close>

definition float_duration :: "(string \<rightharpoonup> exn + rat) \<Rightarrow> exn + rat" where
  "float_duration video_info =
     (case video_info ''duration'' of None \<Rightarrow> Inr 0 | Some v \<Rightarrow> v)"

subsection \<open>The target bitrate\<close>

definition target_size_bytes :: "int \<Rightarrow> rat" where
  "target_size_bytes size_mb = of_int (size_mb * 1024 * 1024) * (95 / 100)"

definition target_bitrate :: "int \<Rightarrow> rat \<Rightarrow> int" where
  "target_bitrate size_mb secs = py_int ((target_size_bytes size_mb * 8) / secs)"

definition compressed_path :: "env \<Rightarrow> string" where
  "compressed_path e =
     path_join (gettempdir e) (''compressed_video_'' @ dec (getpid e) @ ''.mp4'')"

definition compress_cmd :: "string \<Rightarrow> int \<Rightarrow> string \<Rightarrow> cmd" where
  "compress_cmd inp bitrate out =
     [Str ''ffmpeg'',
      Str ''-y'',
      Str ''-i'', Str inp,
      Str ''-c:v'', Str ''libx264'',
      Str ''-b:v'', Num bitrate,
      Str ''-preset'', Str ''medium'',
      Str ''-c:a'', Str ''aac'',
      Str ''-b:a'', Str ''128k'',
      Str out]"

definition file_size_mb :: "nat \<Rightarrow> rat" where
  "file_size_mb file_size_bytes = of_nat file_size_bytes / (1024 * 1024)"

subsection \<open>\<open>_check_and_compress\<close>\<close>

text \<open>
  The handler of the \<open>try\<close> block: it reports the exception and falls back to the
  uncompressed file.
\<close>

definition compression_raised :: "exn \<Rightarrow> trimmer \<Rightarrow> world \<Rightarrow> trimmer \<times> world" where
  "compression_raised x s w =
     (s\<lparr>compressed_output := temp_output s\<rparr>,
      emit (ErrorOccurred [Txt ''Error during compression: '', Exc x]) w)"

definition check_and_compress :: "env \<Rightarrow> trimmer \<times> world \<Rightarrow> trimmer \<times> world" where
  "check_and_compress e sw =
     (case sw of (s, w) \<Rightarrow>
        case temp_output s of
          None \<Rightarrow> compression_raised TypeError s w
        | Some inp \<Rightarrow>
            (case files w inp of
               None \<Rightarrow> (s, w)
             | Some file_size_bytes \<Rightarrow>
                 if file_size_mb file_size_bytes \<le> of_int (max_size_mb s) then
                   (s\<lparr>compressed_output := Some inp\<rparr>,
                    emit (TrimCompleteChanged
                            [Txt ''Trim ready (Size: '', Mb (file_size_mb file_size_bytes),
                             Txt ''MB)'']) w)
                 else
                   let w1 = emit (TrimCompleteChanged
                                    [Txt ''Compressing video ('', Mb (file_size_mb file_size_bytes),
                                     Txt (''MB '' @ arrow @ '' ''), Whole (max_size_mb s),
                                     Txt ''MB max)...'']) w;
                       s1 = s\<lparr>compressed_output := Some (compressed_path e)\<rparr>
                   in case get_video_info e inp w1 of (video_info, w2) \<Rightarrow>
                        (case float_duration video_info of
                           Inl x \<Rightarrow> compression_raised x s1 w2
                         | Inr secs \<Rightarrow>
                             if secs \<le> 0 then
                               (s1, emit (ErrorOccurred
                                  [Txt ''Could not determine video duration for compression'']) w2)
                             else
                               let c = compress_cmd inp (target_bitrate (max_size_mb s1) secs)
                                         (compressed_path e);
                                   w3 = run_logged c w2
                               in case ffmpeg e c (files w3) of
                                    FfmpegRaises x \<Rightarrow> compression_raised x s1 w3
                                  | FfmpegExits returncode stderr out_after \<Rightarrow>
                                      let w4 = w3\<lparr>files := (files w3)(compressed_path e := out_after)\<rparr>
                                      in if returncode = 0 then
                                           (case files w4 (compressed_path e) of
                                              None \<Rightarrow> compression_raised FileNotFoundError s1 w4
                                            | Some compressed_size \<Rightarrow>
                                                (s1, emit (TrimCompleteChanged
                                                   [Txt ''Compressed video ('',
                                                    Mb (file_size_mb file_size_bytes),
                                                    Txt (''MB '' @ arrow @ '' ''),
                                                    Mb (file_size_mb compressed_size),
                                                    Txt ''MB)'']) w4))
                                         else
                                           (s1\<lparr>compressed_output := temp_output s1\<rparr>,
                                            emit (ErrorOccurred
                                               [Txt ''Error compressing video: '', Txt stderr]) w4))))"

subsection \<open>\<open>compressToSize\<close>\<close>

definition compress_to_size_raised ::
  "exn \<Rightarrow> string \<Rightarrow> trimmer \<Rightarrow> world \<Rightarrow> bool \<times> trimmer \<times> world" where
  "compress_to_size_raised x input_file s w =
     (False, s\<lparr>compressed_output := Some input_file\<rparr>,
      emit CompressionFinished
        (emit (ErrorOccurred [Txt ''Error during compression: '', Exc x]) w))"

text \<open>
  When \<open>_temp_output\<close> is \<open>None\<close>, \<open>os.path.exists\<close> raises, and the handler assigns
  \<open>input_file\<close>, which is \<open>None\<close>, to \<open>_compressed_output\<close>.
\<close>

definition compressToSize :: "env \<Rightarrow> int \<Rightarrow> trimmer \<times> world \<Rightarrow> bool \<times> trimmer \<times> world" where
  "compressToSize e size_mb sw =
     (case sw of (s, w) \<Rightarrow>
        if \<not> trim_completed s then
          (False, s, emit (ErrorOccurred [Txt ''No trimmed video available'']) w)
        else
          case temp_output s of
            None \<Rightarrow>
              (False, s\<lparr>compressed_output := None\<rparr>,
               emit CompressionFinished
                 (emit (ErrorOccurred [Txt ''Error during compression: '', Exc TypeError]) w))
          | Some input_file \<Rightarrow>
              (case files w input_file of
                 None \<Rightarrow> (False, s, emit (ErrorOccurred [Txt ''Trimmed video file not found'']) w)
               | Some file_size_bytes \<Rightarrow>
                   let s1 = s\<lparr>compressed_output := Some (compressed_path e)\<rparr> in
                   if file_size_mb file_size_bytes \<le> of_int size_mb then
                     (True, s1\<lparr>compressed_output := Some input_file\<rparr>,
                      emit (TrimCompleteChanged
                              [Txt ''Video already fits size requirement ('',
                               Mb (file_size_mb file_size_bytes), Txt ''MB)'']) w)
                   else
                     let w1 = emit (TrimCompleteChanged
                                      [Txt ''Compressing video ('', Mb (file_size_mb file_size_bytes),
                                       Txt (''MB '' @ arrow @ '' ''), Whole size_mb,
                                       Txt ''MB)...''])
                                (emit CompressionStarted w)
                     in case get_video_info e input_file w1 of (video_info, w2) \<Rightarrow>
                          (case float_duration video_info of
                             Inl x \<Rightarrow> compress_to_size_raised x input_file s1 w2
                           | Inr secs \<Rightarrow>
                               if secs \<le> 0 then
                                 (False, s1, emit (ErrorOccurred
                                    [Txt ''Could not determine video duration for compression'']) w2)
                               else
                                 let c = compress_cmd input_file (target_bitrate size_mb secs)
                                           (compressed_path e);
                                     w3 = run_logged c w2
                                 in case ffmpeg e c (files w3) of
                                      FfmpegRaises x \<Rightarrow> compress_to_size_raised x input_file s1 w3
                                    | FfmpegExits returncode stderr out_after \<Rightarrow>
                                        let w4 = w3\<lparr>files := (files w3)(compressed_path e := out_after)\<rparr>
                                        in if returncode = 0 then
                                             (case files w4 (compressed_path e) of
                                                None \<Rightarrow>
                                                  compress_to_size_raised FileNotFoundError
                                                    input_file s1 w4
                                              | Some compressed_size \<Rightarrow>
                                                  (True, s1,
                                                   emit CompressionFinished
                                                     (emit (TrimCompleteChanged
                                                        [Txt ''Compressed video ('',
                                                         Mb (file_size_mb file_size_bytes),
                                                         Txt (''MB '' @ arrow @ '' ''),
                                                         Mb (file_size_mb compressed_size),
                                                         Txt ''MB)'']) w4)))
                                           else
                                             (False, s1\<lparr>compressed_output := Some input_file\<rparr>,
                                              emit CompressionFinished
                                                (emit (ErrorOccurred
                                                   [Txt ''Error compressing video: '', Txt stderr])
                                                   w4)))))"

subsection \<open>Claiming the result: clipboard and save dialog\<close>

text \<open>
  \<open>self._compressed_output if self._compressed_output else self._temp_output\<close>:
  \<open>None\<close> and the empty string are false.
\<close>

definition file_to_claim :: "trimmer \<Rightarrow> string option" where
  "file_to_claim s =
     (case compressed_output s of
        None \<Rightarrow> temp_output s
      | Some p \<Rightarrow> if p = [] then temp_output s else Some p)"

definition copyTrimToClipboard :: "trimmer \<times> world \<Rightarrow> bool \<times> trimmer \<times> world" where
  "copyTrimToClipboard sw =
     (case sw of (s, w) \<Rightarrow>
        if \<not> trim_completed s then
          (False, s, emit (ErrorOccurred [Txt ''No trimmed video available'']) w)
        else
          case file_to_claim s of
            None \<Rightarrow> (False, s, emit (ErrorOccurred [Txt ''Error preparing video: '', Exc TypeError]) w)
          | Some file_to_copy \<Rightarrow>
              (case files w file_to_copy of
                 None \<Rightarrow> (False, s, emit (ErrorOccurred [Txt ''Trimmed video file not found'']) w)
               | Some size_bytes \<Rightarrow>
                   (True, s,
                    emit (TrimCompleteChanged
                            [Txt ''Video copied to clipboard ('', Mb (file_size_mb size_bytes),
                             Txt ''MB)''])
                      (singleShot (CopyFilePathToClipboard file_to_copy) w))))"

text \<open>
  The command line of the dialog is built from \<open>_video_path\<close> alone, so the dialog is
  asked with that path. \<open>shutil.copy2\<close> either raises or leaves a copy at the
  destination.
\<close>

definition saveTrimmingDialog :: "env \<Rightarrow> trimmer \<times> world \<Rightarrow> bool \<times> trimmer \<times> world" where
  "saveTrimmingDialog e sw =
     (case sw of (s, w) \<Rightarrow>
        if \<not> trim_completed s then
          (False, s, emit (ErrorOccurred [Txt ''No trimmed video available'']) w)
        else
          case file_to_claim s of
            None \<Rightarrow> (False, s, emit (ErrorOccurred [Txt ''Error saving file: '', Exc TypeError]) w)
          | Some file_to_save \<Rightarrow>
              (case files w file_to_save of
                 None \<Rightarrow> (False, s, emit (ErrorOccurred [Txt ''Trimmed video file not found'']) w)
               | Some size_bytes \<Rightarrow>
                   (case kdialog e (video_path s) of
                      KdialogRaises x \<Rightarrow>
                        (False, s, emit (ErrorOccurred [Txt ''Error saving file: '', Exc x]) w)
                    | KdialogExits returncode output_path \<Rightarrow>
                        if returncode = 0 \<and> output_path \<noteq> [] then
                          (case copy2 e file_to_save output_path of
                             Some x \<Rightarrow>
                               (False, s, emit (ErrorOccurred [Txt ''Error saving file: '', Exc x]) w)
                           | None \<Rightarrow>
                               (True, s,
                                emit (TrimCompleteChanged
                                        [Txt ''Saved to: '', Txt output_path, Txt '' ('',
                                         Mb (file_size_mb size_bytes), Txt ''MB)''])
                                  (w\<lparr>files := (files w)(output_path \<mapsto> size_bytes)\<rparr>)))
                        else (False, s, w))))"

subsection \<open>A concrete installation\<close>

text \<open>
  For evaluating the functions: a machine whose temporary directory is \<open>/tmp\<close>, process
  4242, an encoder and a prober that always give the same reply, a save dialog that
  is cancelled; a trimmer after a completed trim of the range from 10 s to 40 s; and a
  world in which the trimmed file has a given size.
\<close>

definition demo_env :: "ffmpeg_reply \<Rightarrow> ffprobe_reply \<Rightarrow> env" where
  "demo_env encoder_reply prober_reply =
     \<lparr>gettempdir = ''/tmp'', getpid = 4242,
      ffmpeg = (\<lambda>c fs. encoder_reply),
      ffprobe = (\<lambda>c fs. prober_reply),
      kdialog = (\<lambda>p. KdialogExits 1 []),
      copy2 = (\<lambda>a b. None)\<rparr>"

definition demo_loaded :: trimmer where
  "demo_loaded = init\<lparr>video_path := ''/home/user/clip.mp4'', duration := 120000,
                       start_time := 10000, end_time := 40000\<rparr>"

definition demo_trimmed :: trimmer where
  "demo_trimmed = demo_loaded\<lparr>trim_completed := True,
                              temp_output := Some ''/tmp/trimmed_video_4242.mp4''\<rparr>"

definition demo_world :: "nat \<Rightarrow> world" where
  "demo_world sz =
     \<lparr>files = [''/home/user/clip.mp4'' \<mapsto> 300000000, ''/tmp/trimmed_video_4242.mp4'' \<mapsto> sz],
      emitted = [], invoked = [], timers = []\<rparr>"

definition demo_start :: world where
  "demo_start = \<lparr>files = [''/home/user/clip.mp4'' \<mapsto> 300000000],
                  emitted = [], invoked = [], timers = []\<rparr>"

text \<open>
  A run in which the trim succeeds and leaves a file of 80 MB, and the prober then exits
  with status 1: the state and world after \<open>createTrim\<close>, and after the
  \<open>_check_and_compress\<close> that \<open>createTrim\<close> has scheduled.
\<close>

definition demo_probe_fails :: env where
  "demo_probe_fails = demo_env (FfmpegExits 0 [] (Some 83886080)) (FfprobeExits 1 Malformed)"

definition demo_after_trim :: "trimmer \<times> world" where
  "demo_after_trim = snd (createTrim demo_probe_fails (demo_loaded, demo_start))"

definition demo_after_check :: "trimmer \<times> world" where
  "demo_after_check = check_and_compress demo_probe_fails demo_after_trim"

section \<open>Properties\<close>

subsection \<open>Auxiliary facts\<close>

lemma world_emit [simp]:
  "files (emit sg w) = files w"
  "invoked (emit sg w) = invoked w"
  "timers (emit sg w) = timers w"
  "emitted (emit sg w) = emitted w @ [sg]"
  by (simp_all add: emit_def)

lemma world_run_logged [simp]:
  "files (run_logged c w) = files w"
  "invoked (run_logged c w) = invoked w @ [c]"
  "timers (run_logged c w) = timers w"
  "emitted (run_logged c w) = emitted w"
  by (simp_all add: run_logged_def)

lemma world_singleShot [simp]:
  "files (singleShot cb w) = files w"
  "invoked (singleShot cb w) = invoked w"
  "timers (singleShot cb w) = timers w @ [cb]"
  "emitted (singleShot cb w) = emitted w"
  by (simp_all add: singleShot_def)

text \<open>The comparison in megabytes is the comparison in bytes.\<close>

lemma fits_iff: "file_size_mb sz \<le> of_int mb \<longleftrightarrow> int sz \<le> mb * 1024 * 1024"
proof -
  have "file_size_mb sz \<le> of_int mb \<longleftrightarrow> (of_nat sz :: rat) \<le> of_int mb * (1024 * 1024)"
    unfolding file_size_mb_def by (simp add: pos_divide_le_eq)
  also have "\<dots> \<longleftrightarrow> (of_int (int sz) :: rat) \<le> of_int (mb * 1024 * 1024)"
    by (simp add: mult.assoc)
  also have "\<dots> \<longleftrightarrow> int sz \<le> mb * 1024 * 1024"
    by (rule of_int_le_iff)
  finally show ?thesis .
qed

lemma py_int_mono: "x \<le> y \<Longrightarrow> py_int x \<le> py_int y"
proof -
  assume xy: "x \<le> y"
  have fl: "\<lfloor>x\<rfloor> \<le> \<lfloor>y\<rfloor>" using xy by (rule floor_mono)
  have ce: "\<lceil>x\<rceil> \<le> \<lceil>y\<rceil>" using xy by (rule ceiling_mono)
  have mixed: "\<lceil>x\<rceil> \<le> \<lfloor>y\<rfloor>" if "x < 0" "0 \<le> y"
  proof -
    from that have "\<lceil>x\<rceil> \<le> 0" "0 \<le> \<lfloor>y\<rfloor>" by (simp_all add: ceiling_le_iff)
    then show ?thesis by linarith
  qed
  show ?thesis unfolding py_int_def using fl ce mixed xy by (auto simp: not_le)
qed


text \<open>The prober is always logged, and the duration read from its reply is as follows.\<close>

lemma snd_get_video_info: "snd (get_video_info e inp w) = run_logged (probe_cmd inp) w"
  by (simp add: get_video_info_def Let_def
      split: ffprobe_reply.split json_doc.split option.split)

lemma float_duration_get_video_info:
  "float_duration (fst (get_video_info e inp w)) =
     (case ffprobe e (probe_cmd inp) (files w) of
        FfprobeRaises x \<Rightarrow> Inr 0
      | FfprobeExits returncode doc \<Rightarrow>
          if returncode = 0 then
            (case doc of Malformed \<Rightarrow> Inr 0 | Document None \<Rightarrow> Inr 0 | Document (Some v) \<Rightarrow> v)
          else Inr 0)"
  by (simp add: get_video_info_def float_duration_def Let_def
      split: ffprobe_reply.split json_doc.split option.split)

lemma no_duration:
  assumes "case ffprobe e (probe_cmd inp) (files w) of
             FfprobeRaises x \<Rightarrow> True
           | FfprobeExits returncode doc \<Rightarrow>
               returncode \<noteq> 0 \<or>
               (case doc of
                  Malformed \<Rightarrow> True
                | Document None \<Rightarrow> True
                | Document (Some (Inl x)) \<Rightarrow> False
                | Document (Some (Inr d)) \<Rightarrow> d \<le> 0)"
  shows "\<exists>d\<le>0. float_duration (fst (get_video_info e inp w)) = Inr d"
  using assms unfolding float_duration_get_video_info
  by (auto split: ffprobe_reply.splits json_doc.splits option.splits sum.splits)

text \<open>The paths of the concrete installation.\<close>

lemma dec_4242: "dec 4242 = ''4242''"
  by (simp add: dec.simps digit_def)

lemma demo_paths:
  "trim_output (demo_env fr pr) = ''/tmp/trimmed_video_4242.mp4''"
  "compressed_path (demo_env fr pr) = ''/tmp/compressed_video_4242.mp4''"
  by (simp_all add: trim_output_def compressed_path_def demo_env_def path_join_def dec_4242)

lemma demo_oracles:
  "ffmpeg (demo_env fr pr) c fs = fr"
  "ffprobe (demo_env fr pr) c fs = pr"
  "kdialog (demo_env fr pr) p = KdialogExits 1 []"
  by (simp_all add: demo_env_def)

lemma demo_trimmed_fields:
  "temp_output demo_trimmed = Some ''/tmp/trimmed_video_4242.mp4''"
  "compressed_output demo_trimmed = None"
  "trim_completed demo_trimmed"
  "max_size_mb demo_trimmed = 50"
  "video_path demo_trimmed = ''/home/user/clip.mp4''"
  "start_time demo_trimmed = 10000"
  "end_time demo_trimmed = 40000"
  by (simp_all add: demo_trimmed_def demo_loaded_def init_def)

lemma demo_world_fields:
  "files (demo_world sz) ''/tmp/trimmed_video_4242.mp4'' = Some sz"
  "files (demo_world sz) ''/tmp/compressed_video_4242.mp4'' = None"
  "emitted (demo_world sz) = []"
  "invoked (demo_world sz) = []"
  "timers (demo_world sz) = []"
  by (simp_all add: demo_world_def)

lemma demo_start_fields:
  "files demo_start ''/tmp/trimmed_video_4242.mp4'' = None"
  "files demo_start ''/tmp/compressed_video_4242.mp4'' = None"
  "emitted demo_start = []"
  "invoked demo_start = []"
  "timers demo_start = []"
  by (simp_all add: demo_start_def)


subsection \<open>A file that already fits\<close>

lemma check_and_compress_fits:
  assumes "temp_output s = Some inp" "files w inp = Some sz"
    and "int sz \<le> max_size_mb s * 1024 * 1024"
  shows "check_and_compress e (s, w) =
    (s\<lparr>compressed_output := Some inp\<rparr>,
     emit (TrimCompleteChanged
             [Txt ''Trim ready (Size: '', Mb (file_size_mb sz), Txt ''MB)'']) w)"
  using assms by (simp add: check_and_compress_def fits_iff)

lemma compressToSize_fits:
  assumes "trim_completed s" "temp_output s = Some inp" "files w inp = Some sz"
    and "int sz \<le> size_mb * 1024 * 1024"
  shows "compressToSize e size_mb (s, w) =
    (True, s\<lparr>compressed_output := Some inp\<rparr>,
     emit (TrimCompleteChanged
             [Txt ''Video already fits size requirement ('', Mb (file_size_mb sz),
              Txt ''MB)'']) w)"
  using assms by (simp add: compressToSize_def fits_iff)

text \<open>
  Claim C2. When the size in bytes of the trimmed file is at most the ceiling
  (\<open>max_size_mb\<close>, or the argument \<open>size_mb\<close>, times 1024 * 1024), the size-fit step
  designates the trimmed file itself as the output, leaves the file system as it was,
  runs no external process (so no encoder), and emits one status message and no
  \<open>CompressionStarted\<close>. This holds for \<open>_check_and_compress\<close> and for \<open>compressToSize\<close>.
\<close>

theorem fits_keeps_input:
  assumes "temp_output s = Some inp" and "files w inp = Some sz"
  shows "(int sz \<le> max_size_mb s * 1024 * 1024 \<longrightarrow>
            (case check_and_compress e (s, w) of (s', w') \<Rightarrow>
               compressed_output s' = Some inp \<and> temp_output s' = Some inp \<and>
               files w' = files w \<and> invoked w' = invoked w \<and>
               emitted w' = emitted w @
                 [TrimCompleteChanged
                    [Txt ''Trim ready (Size: '', Mb (file_size_mb sz), Txt ''MB)'']]))
       \<and> (trim_completed s \<longrightarrow> int sz \<le> size_mb * 1024 * 1024 \<longrightarrow>
            (case compressToSize e size_mb (s, w) of (ok, s', w') \<Rightarrow>
               ok \<and> compressed_output s' = Some inp \<and> temp_output s' = Some inp \<and>
               files w' = files w \<and> invoked w' = invoked w \<and>
               emitted w' = emitted w @
                 [TrimCompleteChanged
                    [Txt ''Video already fits size requirement ('', Mb (file_size_mb sz),
                     Txt ''MB)'']]))"
  using assms by (simp add: check_and_compress_fits compressToSize_fits)

theorem fits_keeps_input_witness:
  "temp_output demo_trimmed = Some ''/tmp/trimmed_video_4242.mp4'' \<and>
   files (demo_world 10485760) ''/tmp/trimmed_video_4242.mp4'' = Some 10485760 \<and>
   trim_completed demo_trimmed \<and>
   int 10485760 \<le> max_size_mb demo_trimmed * 1024 * 1024 \<and>
   (case check_and_compress (demo_env (FfmpegRaises OSError) (FfprobeRaises OSError))
           (demo_trimmed, demo_world 10485760) of (s', w') \<Rightarrow>
      compressed_output s' = Some ''/tmp/trimmed_video_4242.mp4'' \<and>
      files w' = files (demo_world 10485760) \<and> invoked w' = []) \<and>
   (case compressToSize (demo_env (FfmpegRaises OSError) (FfprobeRaises OSError)) 50
           (demo_trimmed, demo_world 10485760) of (ok, s', w') \<Rightarrow>
      ok \<and> compressed_output s' = Some ''/tmp/trimmed_video_4242.mp4'' \<and>
      files w' = files (demo_world 10485760) \<and> invoked w' = [])"
  using fits_keeps_input [of demo_trimmed "''/tmp/trimmed_video_4242.mp4''"
      "demo_world 10485760" 10485760
      "demo_env (FfmpegRaises OSError) (FfprobeRaises OSError)" 50]
  by (simp add: demo_trimmed_fields demo_world_fields split: prod.splits)

subsection \<open>The target bitrate\<close>





text \<open>
  Claim C7. For a non-negative ceiling the target bitrate does not grow when the
  positive duration grows, and for a positive duration it does not shrink when the
  ceiling grows.
\<close>

theorem target_bitrate_monotone:
  "(0 \<le> size_mb \<longrightarrow> 0 < d1 \<longrightarrow> d1 \<le> d2 \<longrightarrow>
      target_bitrate size_mb d2 \<le> target_bitrate size_mb d1)
   \<and> (0 < d \<longrightarrow> a \<le> b \<longrightarrow> target_bitrate a d \<le> target_bitrate b d)"
proof (intro conjI impI)
  assume "0 \<le> size_mb" "0 < d1" "d1 \<le> d2"
  then show "target_bitrate size_mb d2 \<le> target_bitrate size_mb d1"
    unfolding target_bitrate_def target_size_bytes_def
    by (intro py_int_mono divide_left_mono mult_nonneg_nonneg) simp_all
next
  assume "0 < d" "a \<le> b"
  then show "target_bitrate a d \<le> target_bitrate b d"
    unfolding target_bitrate_def target_size_bytes_def
    by (intro py_int_mono divide_right_mono mult_right_mono) simp_all
qed

theorem target_bitrate_monotone_witness:
  "(0::int) \<le> 50 \<and> (0::rat) < 30 \<and> (30::rat) \<le> 60 \<and> (25::int) \<le> 50 \<and>
   target_bitrate 50 60 \<le> target_bitrate 50 30 \<and>
   target_bitrate 25 30 \<le> target_bitrate 50 30"
  using target_bitrate_monotone [of 50 30 60 30 25 50] by simp

text \<open>
  Claim C8, as stated: for a ceiling of 50 MB and a duration of 30 s the target bitrate
  is 13264877. It is not.
\<close>

theorem bitrate_50_30_counterexample: "target_bitrate 50 30 \<noteq> 13264877"
  by (simp add: target_bitrate_def target_size_bytes_def py_int_def floor_eq_iff)

text \<open>
  Claim C8, amended: for a ceiling of 50 MB and a duration of 30 s the target bitrate is
  \<open>\<lfloor>50 * 1024 * 1024 * 0.95 * 8 / 30\<rfloor> = 13281962\<close> bits per second.
\<close>

theorem bitrate_50_30:
  "target_bitrate 50 30 = \<lfloor>50 * 1024 * 1024 * (95 / 100) * 8 / (30::rat)\<rfloor> \<and>
   target_bitrate 50 30 = 13281962"
  by (simp add: target_bitrate_def target_size_bytes_def py_int_def floor_eq_iff)

subsection \<open>No usable duration\<close>

lemma check_and_compress_no_duration:
  assumes "temp_output s = Some inp" "files w inp = Some sz"
    and "max_size_mb s * 1024 * 1024 < int sz"
    and "case ffprobe e (probe_cmd inp) (files w) of
           FfprobeRaises x \<Rightarrow> True
         | FfprobeExits returncode doc \<Rightarrow>
             returncode \<noteq> 0 \<or>
             (case doc of
                Malformed \<Rightarrow> True
              | Document None \<Rightarrow> True
              | Document (Some (Inl x)) \<Rightarrow> False
              | Document (Some (Inr d)) \<Rightarrow> d \<le> 0)"
  shows "check_and_compress e (s, w) =
    (s\<lparr>compressed_output := Some (compressed_path e)\<rparr>,
     emit (ErrorOccurred [Txt ''Could not determine video duration for compression''])
       (run_logged (probe_cmd inp)
          (emit (TrimCompleteChanged
                   [Txt ''Compressing video ('', Mb (file_size_mb sz),
                    Txt (''MB '' @ arrow @ '' ''), Whole (max_size_mb s),
                    Txt ''MB max)...'']) w)))"
proof -
  let ?w1 = "emit (TrimCompleteChanged
                     [Txt ''Compressing video ('', Mb (file_size_mb sz),
                      Txt (''MB '' @ arrow @ '' ''), Whole (max_size_mb s),
                      Txt ''MB max)...'']) w"
  have "files ?w1 = files w" by simp
  with assms(4) no_duration [of e inp ?w1]
  obtain d where "d \<le> 0" "float_duration (fst (get_video_info e inp ?w1)) = Inr d"
    by auto
  with assms(1-3) show ?thesis
    by (simp add: check_and_compress_def fits_iff Let_def split_beta snd_get_video_info)
qed

lemma compressToSize_no_duration:
  assumes "trim_completed s" "temp_output s = Some inp" "files w inp = Some sz"
    and "size_mb * 1024 * 1024 < int sz"
    and "case ffprobe e (probe_cmd inp) (files w) of
           FfprobeRaises x \<Rightarrow> True
         | FfprobeExits returncode doc \<Rightarrow>
             returncode \<noteq> 0 \<or>
             (case doc of
                Malformed \<Rightarrow> True
              | Document None \<Rightarrow> True
              | Document (Some (Inl x)) \<Rightarrow> False
              | Document (Some (Inr d)) \<Rightarrow> d \<le> 0)"
  shows "compressToSize e size_mb (s, w) =
    (False, s\<lparr>compressed_output := Some (compressed_path e)\<rparr>,
     emit (ErrorOccurred [Txt ''Could not determine video duration for compression''])
       (run_logged (probe_cmd inp)
          (emit (TrimCompleteChanged
                   [Txt ''Compressing video ('', Mb (file_size_mb sz),
                    Txt (''MB '' @ arrow @ '' ''), Whole size_mb,
                    Txt ''MB)...'']) (emit CompressionStarted w))))"
proof -
  let ?w1 = "emit (TrimCompleteChanged
                     [Txt ''Compressing video ('', Mb (file_size_mb sz),
                      Txt (''MB '' @ arrow @ '' ''), Whole size_mb,
                      Txt ''MB)...'']) (emit CompressionStarted w)"
  have "files ?w1 = files w" by simp
  with assms(5) no_duration [of e inp ?w1]
  obtain d where "d \<le> 0" "float_duration (fst (get_video_info e inp ?w1)) = Inr d"
    by auto
  with assms(1-4) show ?thesis
    by (simp add: compressToSize_def fits_iff Let_def split_beta snd_get_video_info)
qed



subsection \<open>\<open>createTrim\<close> and the encoder\<close>

lemma createTrim_unloaded:
  assumes "video_path s = []"
  shows "createTrim e (s, w) = (False, s, emit (ErrorOccurred [Txt ''No video loaded'']) w)"
  using assms by (simp add: createTrim_def)

lemma createTrim_raises:
  assumes "video_path s \<noteq> []" and "ffmpeg e (trim_cmd e s) (files w) = FfmpegRaises x"
  shows "createTrim e (s, w) =
    (False, s\<lparr>temp_output := Some (trim_output e)\<rparr>,
     emit (ErrorOccurred [Txt ''Error during trimming: '', Exc x]) (run_logged (trim_cmd e s) w))"
  using assms by (simp add: createTrim_def Let_def)

lemma createTrim_nonzero:
  assumes "video_path s \<noteq> []"
    and "ffmpeg e (trim_cmd e s) (files w) = FfmpegExits returncode stderr out_after"
    and "returncode \<noteq> 0"
  shows "createTrim e (s, w) =
    (False, s\<lparr>temp_output := Some (trim_output e)\<rparr>,
     emit (ErrorOccurred [Txt ''Error trimming video: '', Txt stderr])
       ((run_logged (trim_cmd e s) w)\<lparr>files := (files w)(trim_output e := out_after)\<rparr>))"
  using assms by (simp add: createTrim_def Let_def)

lemma createTrim_zero:
  assumes "video_path s \<noteq> []"
    and "ffmpeg e (trim_cmd e s) (files w) = FfmpegExits 0 stderr out_after"
  shows "createTrim e (s, w) =
    (True, s\<lparr>temp_output := Some (trim_output e), trim_completed := True\<rparr>,
     emit (TrimCompleteChanged [Txt ''Trim created and ready to save or copy''])
       (singleShot CheckAndCompress
          ((run_logged (trim_cmd e s) w)\<lparr>files := (files w)(trim_output e := out_after)\<rparr>)))"
  using assms by (simp add: createTrim_def Let_def)

lemma invoked_createTrim:
  assumes "video_path s \<noteq> []"
  shows "invoked (snd (snd (createTrim e (s, w)))) = invoked w @ [trim_cmd e s]"
proof (cases "ffmpeg e (trim_cmd e s) (files w)")
  case (FfmpegRaises x)
  with assms show ?thesis by (simp add: createTrim_raises)
next
  case (FfmpegExits returncode stderr out_after)
  with assms show ?thesis
    by (cases "returncode = 0") (simp_all add: createTrim_zero createTrim_nonzero)
qed



text \<open>
  Claim C6. With a video loaded, \<open>createTrim\<close> runs the encoder once, with the seek
  argument \<open>startMs / 1000\<close>, the duration argument \<open>(endMs - startMs) / 1000\<close> and the
  codec argument \<open>copy\<close>; for the range from 10000 to 40000 the duration argument is 30.
\<close>

theorem createTrim_encoder_arguments:
  assumes "video_path s \<noteq> []"
  shows "invoked (snd (snd (createTrim e (s, w)))) =
           invoked w @
             [[Str ''ffmpeg'', Str ''-y'', Str ''-i'', Str (video_path s),
               Str ''-ss'', Flt (of_int (start_time s) / 1000),
               Str ''-t'', Flt (of_int (end_time s - start_time s) / 1000),
               Str ''-c'', Str ''copy'', Str (trim_output e)]]
       \<and> (start_time s = 10000 \<longrightarrow> end_time s = 40000 \<longrightarrow>
            invoked (snd (snd (createTrim e (s, w)))) =
              invoked w @
                [[Str ''ffmpeg'', Str ''-y'', Str ''-i'', Str (video_path s),
                  Str ''-ss'', Flt 10, Str ''-t'', Flt 30,
                  Str ''-c'', Str ''copy'', Str (trim_output e)]])"
  using assms
  by (simp add: invoked_createTrim trim_cmd_def start_seconds_def duration_seconds_def)

theorem createTrim_encoder_arguments_witness:
  "video_path demo_loaded \<noteq> [] \<and> start_time demo_loaded = 10000 \<and>
   end_time demo_loaded = 40000 \<and>
   invoked (snd (snd (createTrim
      (demo_env (FfmpegExits 0 [] (Some 83886080)) (FfprobeRaises OSError))
      (demo_loaded, demo_start)))) =
     [[Str ''ffmpeg'', Str ''-y'', Str ''-i'', Str ''/home/user/clip.mp4'',
       Str ''-ss'', Flt 10, Str ''-t'', Flt 30,
       Str ''-c'', Str ''copy'', Str ''/tmp/trimmed_video_4242.mp4'']]"
  using createTrim_encoder_arguments [of demo_loaded
      "demo_env (FfmpegExits 0 [] (Some 83886080)) (FfprobeRaises OSError)" demo_start]
  by (simp add: demo_loaded_def init_def demo_start_def demo_paths)

text \<open>
  Claim C9. \<open>createTrim\<close> does not compare the two offsets. With a video loaded it runs
  the encoder whatever they are, and the argument after \<open>-t\<close> is
  \<open>(endMs - startMs) / 1000\<close>, which is zero or negative exactly when \<open>endMs \<le> startMs\<close>.
  Only with an empty video path does it return \<open>False\<close> without running anything.
\<close>

theorem createTrim_no_range_check:
  "(video_path s \<noteq> [] \<longrightarrow>
      invoked (snd (snd (createTrim e (s, w)))) = invoked w @ [trim_cmd e s] \<and>
      trim_cmd e s ! 0 = Str ''ffmpeg'' \<and>
      trim_cmd e s ! 6 = Str ''-t'' \<and>
      trim_cmd e s ! 7 = Flt (of_int (end_time s - start_time s) / 1000) \<and>
      ((of_int (end_time s - start_time s) / 1000 :: rat) \<le> 0 \<longleftrightarrow>
         end_time s \<le> start_time s))
   \<and> (video_path s = [] \<longrightarrow>
        createTrim e (s, w) = (False, s, emit (ErrorOccurred [Txt ''No video loaded'']) w) \<and>
        invoked (snd (snd (createTrim e (s, w)))) = invoked w)"
  by (simp add: invoked_createTrim createTrim_unloaded trim_cmd_def duration_seconds_def
      divide_le_0_iff)

theorem createTrim_no_range_check_witness:
  "video_path (demo_loaded\<lparr>start_time := 40000, end_time := 10000\<rparr>) \<noteq> [] \<and>
   invoked (snd (snd (createTrim
      (demo_env (FfmpegExits 1 [] None) (FfprobeRaises OSError))
      (demo_loaded\<lparr>start_time := 40000, end_time := 10000\<rparr>, demo_start)))) =
     [[Str ''ffmpeg'', Str ''-y'', Str ''-i'', Str ''/home/user/clip.mp4'',
       Str ''-ss'', Flt 40, Str ''-t'', Flt (- 30),
       Str ''-c'', Str ''copy'', Str ''/tmp/trimmed_video_4242.mp4'']] \<and>
   video_path init = [] \<and>
   invoked (snd (snd (createTrim
      (demo_env (FfmpegExits 1 [] None) (FfprobeRaises OSError)) (init, demo_start)))) = []"
  using createTrim_no_range_check [of "demo_loaded\<lparr>start_time := 40000, end_time := 10000\<rparr>"
      "demo_env (FfmpegExits 1 [] None) (FfprobeRaises OSError)" demo_start]
    createTrim_no_range_check [of init
      "demo_env (FfmpegExits 1 [] None) (FfprobeRaises OSError)" demo_start]
  by (simp add: demo_loaded_def init_def demo_start_def demo_paths trim_cmd_def
      start_seconds_def duration_seconds_def)

subsection \<open>Changing the range after a trim\<close>

text \<open>
  Claim C10. Setting \<open>startTime\<close> or \<open>endTime\<close> to a value different from the current one
  stores it, clears the completion flag and emits the change signal; after that
  \<open>copyTrimToClipboard\<close> and \<open>saveTrimmingDialog\<close> return \<open>False\<close> with the error
  \<open>No trimmed video available\<close>. Setting either to its current value changes neither
  the object nor the world, so it emits nothing.
\<close>

theorem range_change_clears_completion:
  "(v \<noteq> start_time s \<longrightarrow>
      (case set_startTime v (s, w) of (s', w') \<Rightarrow>
         s' = s\<lparr>start_time := v, trim_completed := False\<rparr> \<and>
         w' = emit StartTimeChanged w \<and>
         copyTrimToClipboard (s', w') =
           (False, s', emit (ErrorOccurred [Txt ''No trimmed video available'']) w') \<and>
         saveTrimmingDialog e (s', w') =
           (False, s', emit (ErrorOccurred [Txt ''No trimmed video available'']) w')))
   \<and> (v \<noteq> end_time s \<longrightarrow>
      (case set_endTime v (s, w) of (s', w') \<Rightarrow>
         s' = s\<lparr>end_time := v, trim_completed := False\<rparr> \<and>
         w' = emit EndTimeChanged w \<and>
         copyTrimToClipboard (s', w') =
           (False, s', emit (ErrorOccurred [Txt ''No trimmed video available'']) w') \<and>
         saveTrimmingDialog e (s', w') =
           (False, s', emit (ErrorOccurred [Txt ''No trimmed video available'']) w')))
   \<and> set_startTime (start_time s) (s, w) = (s, w)
   \<and> set_endTime (end_time s) (s, w) = (s, w)"
  by (auto simp add: set_startTime_def set_endTime_def copyTrimToClipboard_def
      saveTrimmingDialog_def)

theorem range_change_clears_completion_witness:
  "(5000::int) \<noteq> start_time demo_trimmed \<and> trim_completed demo_trimmed \<and>
   \<not> trim_completed (fst (set_startTime 5000 (demo_trimmed, demo_world 83886080))) \<and>
   emitted (snd (set_startTime 5000 (demo_trimmed, demo_world 83886080))) = [StartTimeChanged] \<and>
   \<not> fst (copyTrimToClipboard (set_startTime 5000 (demo_trimmed, demo_world 83886080))) \<and>
   \<not> fst (saveTrimmingDialog (demo_env (FfmpegRaises OSError) (FfprobeRaises OSError))
            (set_startTime 5000 (demo_trimmed, demo_world 83886080))) \<and>
   set_endTime 40000 (demo_trimmed, demo_world 83886080) = (demo_trimmed, demo_world 83886080)"
  using range_change_clears_completion [of 5000 demo_trimmed "demo_world 83886080"
      "demo_env (FfmpegRaises OSError) (FfprobeRaises OSError)"]
    range_change_clears_completion [of 40000 demo_trimmed "demo_world 83886080"
      "demo_env (FfmpegRaises OSError) (FfprobeRaises OSError)"]
  by (simp add: demo_trimmed_fields demo_world_fields split: prod.splits)

subsection \<open>Falling back to the trim\<close>

text \<open>The two temporary paths differ.\<close>

lemma trim_output_neq_compressed_path: "trim_output e \<noteq> compressed_path e"
  by (simp add: trim_output_def compressed_path_def path_join_def)

text \<open>
  When the encoder cannot be run or exits with a nonzero status, \<open>_check_and_compress\<close>
  designates the trimmed file again, and that file is still there.
\<close>

lemma check_and_compress_encoder_failure:
  assumes "temp_output s = Some inp" "files w inp = Some sz" "inp \<noteq> compressed_path e"
    and "max_size_mb s * 1024 * 1024 < int sz"
    and "ffprobe e (probe_cmd inp) (files w) = FfprobeExits 0 (Document (Some (Inr d)))"
    and "0 < d"
    and "case ffmpeg e (compress_cmd inp (target_bitrate (max_size_mb s) d) (compressed_path e))
                (files w) of
           FfmpegRaises x \<Rightarrow> True
         | FfmpegExits returncode stderr out_after \<Rightarrow> returncode \<noteq> 0"
  shows "compressed_output (fst (check_and_compress e (s, w))) = Some inp \<and>
         files (snd (check_and_compress e (s, w))) inp = Some sz"
  using assms
  by (simp add: check_and_compress_def fits_iff split_beta snd_get_video_info
      float_duration_get_video_info compression_raised_def Let_def
      split: ffmpeg_reply.splits)

text \<open>
  Claim C1, at a failing input. The trim has succeeded and its file of 80 MB exists;
  the prober exits with status 1, so the duration is unavailable. \<open>_check_and_compress\<close>
  reports the error and returns with \<open>_compressed_output\<close> still set to the path of the
  compressed file, which was never written. The file chosen for claiming is then that
  missing file, and both \<open>copyTrimToClipboard\<close> and \<open>saveTrimmingDialog\<close> fail with
  \<open>Trimmed video file not found\<close> although the trimmed file is there. \<open>compressToSize\<close>
  leaves the same state.
\<close>

theorem unknown_duration_loses_trim:
  "fst (createTrim demo_probe_fails (demo_loaded, demo_start)) \<and>
   trim_completed (fst demo_after_trim) \<and>
   timers (snd demo_after_trim) = [CheckAndCompress] \<and>
   temp_output (fst demo_after_check) = Some ''/tmp/trimmed_video_4242.mp4'' \<and>
   files (snd demo_after_check) ''/tmp/trimmed_video_4242.mp4'' = Some 83886080 \<and>
   last (emitted (snd demo_after_check)) =
     ErrorOccurred [Txt ''Could not determine video duration for compression''] \<and>
   file_to_claim (fst demo_after_check) = Some ''/tmp/compressed_video_4242.mp4'' \<and>
   files (snd demo_after_check) ''/tmp/compressed_video_4242.mp4'' = None \<and>
   copyTrimToClipboard demo_after_check =
     (False, fst demo_after_check,
      emit (ErrorOccurred [Txt ''Trimmed video file not found'']) (snd demo_after_check)) \<and>
   saveTrimmingDialog demo_probe_fails demo_after_check =
     (False, fst demo_after_check,
      emit (ErrorOccurred [Txt ''Trimmed video file not found'']) (snd demo_after_check)) \<and>
   file_to_claim (fst (snd (compressToSize demo_probe_fails 50 demo_after_trim))) =
     Some ''/tmp/compressed_video_4242.mp4''"
proof -
  have loaded: "video_path demo_loaded \<noteq> []"
    by (simp add: demo_loaded_def)
  have trim: "createTrim demo_probe_fails (demo_loaded, demo_start) =
      (True,
       demo_loaded\<lparr>temp_output := Some ''/tmp/trimmed_video_4242.mp4'', trim_completed := True\<rparr>,
       emit (TrimCompleteChanged [Txt ''Trim created and ready to save or copy''])
         (singleShot CheckAndCompress
            ((run_logged (trim_cmd demo_probe_fails demo_loaded) demo_start)
             \<lparr>files := (files demo_start)(''/tmp/trimmed_video_4242.mp4'' \<mapsto> 83886080)\<rparr>)))"
    using createTrim_zero [of demo_loaded demo_probe_fails demo_start "[]" "Some 83886080"] loaded
    by (simp add: demo_probe_fails_def demo_oracles demo_paths)
  let ?s1 = "demo_loaded\<lparr>temp_output := Some ''/tmp/trimmed_video_4242.mp4'',
                         trim_completed := True\<rparr>"
  let ?w1 = "emit (TrimCompleteChanged [Txt ''Trim created and ready to save or copy''])
         (singleShot CheckAndCompress
            ((run_logged (trim_cmd demo_probe_fails demo_loaded) demo_start)
             \<lparr>files := (files demo_start)(''/tmp/trimmed_video_4242.mp4'' \<mapsto> 83886080)\<rparr>))"
  have after_trim: "demo_after_trim = (?s1, ?w1)"
    by (simp add: demo_after_trim_def trim)
  have size: "max_size_mb ?s1 * 1024 * 1024 < int 83886080"
    by (simp add: demo_loaded_def init_def)
  have probe: "case ffprobe demo_probe_fails (probe_cmd ''/tmp/trimmed_video_4242.mp4'') (files ?w1) of
           FfprobeRaises x \<Rightarrow> True
         | FfprobeExits returncode doc \<Rightarrow>
             returncode \<noteq> 0 \<or>
             (case doc of
                Malformed \<Rightarrow> True
              | Document None \<Rightarrow> True
              | Document (Some (Inl x)) \<Rightarrow> False
              | Document (Some (Inr d)) \<Rightarrow> d \<le> 0)"
    by (simp add: demo_probe_fails_def demo_oracles)
  have check: "demo_after_check =
      (?s1\<lparr>compressed_output := Some ''/tmp/compressed_video_4242.mp4''\<rparr>,
       emit (ErrorOccurred [Txt ''Could not determine video duration for compression''])
         (run_logged (probe_cmd ''/tmp/trimmed_video_4242.mp4'')
            (emit (TrimCompleteChanged
                     [Txt ''Compressing video ('', Mb (file_size_mb 83886080),
                      Txt (''MB '' @ arrow @ '' ''), Whole (max_size_mb ?s1),
                      Txt ''MB max)...'']) ?w1)))"
    unfolding demo_after_check_def after_trim
    using check_and_compress_no_duration [of ?s1 "''/tmp/trimmed_video_4242.mp4''" ?w1
        83886080 demo_probe_fails, OF _ _ size probe]
    by (simp add: demo_probe_fails_def demo_paths)
  have again: "compressToSize demo_probe_fails 50 demo_after_trim =
      (False, ?s1\<lparr>compressed_output := Some ''/tmp/compressed_video_4242.mp4''\<rparr>,
       emit (ErrorOccurred [Txt ''Could not determine video duration for compression''])
         (run_logged (probe_cmd ''/tmp/trimmed_video_4242.mp4'')
            (emit (TrimCompleteChanged
                     [Txt ''Compressing video ('', Mb (file_size_mb 83886080),
                      Txt (''MB '' @ arrow @ '' ''), Whole 50,
                      Txt ''MB)...'']) (emit CompressionStarted ?w1))))"
    unfolding after_trim
    using compressToSize_no_duration [of ?s1 "''/tmp/trimmed_video_4242.mp4''" ?w1
        83886080 50 demo_probe_fails, OF _ _ _ _ probe]
    by (simp add: demo_probe_fails_def demo_paths)
  show ?thesis
    unfolding check again
    by (simp add: trim after_trim file_to_claim_def copyTrimToClipboard_def
        saveTrimmingDialog_def demo_start_fields)
qed

end
